theory Spec2Isabelle
  imports Main "HOL-Library.Sublist"
begin

section \<open>Configuration loading of the OVH API client (configuration.go)\<close>

text \<open>
  \<open>loadConfig\<close> fills the credentials and the endpoint of a \<open>Client\<close> from the values the
  caller set, the process environment and up to three ini files. Everything the function
  reads from outside (environment, current user, file readability, file contents, the
  \<open>Endpoints\<close> table) is gathered in one record, \<open>world\<close>, that every function takes as its
  first argument; the client is passed in and returned, since the Go method mutates its
  receiver.
\<close>

subsection \<open>Strings\<close>

text \<open>
  Go strings are byte sequences, as \<open>string\<close> is here. On a string of ASCII bytes only
  (every byte below \<open>0x80\<close>, its top bit clear) \<open>strings.ToUpper\<close> maps the letters
  \<open>a\<close>..\<open>z\<close> to \<open>A\<close>..\<open>Z\<close> byte by byte; \<open>ToUpper\<close> itself follows the \<open>world\<close> record
  below, which holds what it does on any other string.
\<close>

definition upper_char :: "char \<Rightarrow> char" where
  "upper_char c =
     (case map_of (zip ''abcdefghijklmnopqrstuvwxyz'' ''ABCDEFGHIJKLMNOPQRSTUVWXYZ'') c of
        None \<Rightarrow> c
      | Some u \<Rightarrow> u)"

definition isASCII :: "string \<Rightarrow> bool" where
  "isASCII s = list_all (\<lambda>c. \<not> digit7 c) s"

text \<open>\<open>strings.Contains(s, substr)\<close>: \<open>substr\<close> occurs somewhere within \<open>s\<close>.\<close>

primrec Contains :: "string \<Rightarrow> string \<Rightarrow> bool" where
  "Contains [] substr = (substr = [])"
| "Contains (c # s) substr = (prefix substr (c # s) \<or> Contains s substr)"

subsection \<open>Errors\<close>

text \<open>
  \<open>fmt.Errorf\<close> builds an error value that carries its formatted message. The three
  errors of \<open>loadConfig\<close> are named here after what they report; \<open>%s\<close> inserts the
  endpoint name as it is.
\<close>

datatype error = Errorf string

definition UnknownEndpoint :: "string \<Rightarrow> error" where
  "UnknownEndpoint endpointName =
     Errorf (''Unknown endpoint '' @ [CHR 0x27] @ endpointName @ [CHR 0x27] @
             ''. Consider checking '' @ [CHR 0x27] @ ''Endpoints'' @ [CHR 0x27] @
             '' list of using an URL.'')"

definition MissingApplicationKey :: error where
  "MissingApplicationKey =
     Errorf (''Missing application key. Please check your configuration '' @
             ''or consult the documentation to create one.'')"

definition MissingApplicationSecret :: error where
  "MissingApplicationSecret =
     Errorf (''Missing application secret. Please check your configuration '' @
             ''or consult the documentation to create one.'')"

subsection \<open>The ini library\<close>

text \<open>
  Modelled from the spec: the ini package (\<open>gopkg.in/ini.v1\<close>: \<open>ini.Empty\<close>, \<open>File.Append\<close>,
  \<open>File.Section\<close>, \<open>Section.Key\<close>, \<open>Key.String\<close>) is imported by configuration.go and is not
  part of the sources. The spec treats it as the capability to parse key-value sections
  from a file, and says of the merge: ``Later sources override earlier ones for identical
  (section, key) pairs -- merging is last-wins, not additive'', ``each layer overwriting
  prior keys section-by-section''. A loaded configuration is therefore a partial map from
  section names to partial maps from keys to values, and appending a parsed file
  overwrites, section by section, the keys the file defines.
\<close>

type_synonym ini_Keys = "string \<rightharpoonup> string"

type_synonym ini_File = "string \<rightharpoonup> ini_Keys"

definition ini_Empty :: ini_File where
  "ini_Empty = Map.empty"

definition ini_Append :: "ini_File \<Rightarrow> ini_File \<Rightarrow> ini_File" where
  "ini_Append cfg src =
     (\<lambda>section. case src section of
        None \<Rightarrow> cfg section
      | Some keys \<Rightarrow>
          (case cfg section of None \<Rightarrow> Some keys | Some old \<Rightarrow> Some (old ++ keys)))"

text \<open>
  The two lookups follow the package, not the nil checks of \<open>getConfigValue\<close>:
  \<^item> \<open>File.Section\<close> never returns nil. A section the file lacks is created empty and
    returned; the empty name stands for the section \<open>DEFAULT\<close>.
  \<^item> \<open>Section.Key\<close> never returns nil. A key the section lacks is looked for in the parent
    sections (the parents of \<open>a.b.c\<close> are \<open>a.b\<close> and \<open>a\<close>, nearest first); when none has it,
    a key with the empty value is created and returned.
  \<^item> \<open>Key.String\<close> is the value of the key, read here as the file gives it (a value that
    refers to another key, written \<open>%(name)s\<close>, is outside the model).

  A section object is its file and its name, as in the package. The sections and keys
  that a lookup creates are empty, so no later lookup of \<open>loadConfig\<close> (each of another
  key) reads them, and the configuration is not passed on as changed. The package files
  no section under the empty name; a map that holds one is not a loaded file, and there
  the empty name is read as it is.
\<close>

record ini_Section =
  sec_file :: ini_File
  sec_name :: string

record ini_Key =
  key_value :: string

definition DefaultSection :: string where
  "DefaultSection = ''DEFAULT''"

definition sectionName :: "ini_File \<Rightarrow> string \<Rightarrow> string" where
  "sectionName f name = (if name = [] \<and> f [] = None then DefaultSection else name)"

text \<open>\<open>File.GetSection\<close>: the section of that name, or an error when the file has none.\<close>

definition GetSection :: "ini_File \<Rightarrow> string \<Rightarrow> ini_Section option" where
  "GetSection f name =
     (if f (sectionName f name) = None then None
      else Some \<lparr>sec_file = f, sec_name = sectionName f name\<rparr>)"

definition Section :: "ini_File \<Rightarrow> string \<Rightarrow> ini_Section option" where
  "Section f name =
     (case GetSection f name of
        Some sec \<Rightarrow> Some sec
      | None \<Rightarrow> Some \<lparr>sec_file = f, sec_name = sectionName f name\<rparr>)"

definition keysOf :: "ini_Section \<Rightarrow> ini_Keys" where
  "keysOf sec = (case sec_file sec (sec_name sec) of None \<Rightarrow> Map.empty | Some keys \<Rightarrow> keys)"

text \<open>
  The names of the parent sections, nearest first: the name cut at its last dot, then at
  the dot before, and so on. \<open>parents_rev\<close> walks the reversed name.
\<close>

primrec parents_rev :: "string \<Rightarrow> string list" where
  "parents_rev [] = []"
| "parents_rev (c # cs) =
     (if c = CHR ''.'' then rev cs # parents_rev cs else parents_rev cs)"

definition parentNames :: "string \<Rightarrow> string list" where
  "parentNames sname = parents_rev (rev sname)"

text \<open>
  \<open>Section.GetKey\<close>: the key of the section itself, else of the nearest parent section
  that exists and has it, else an error.
\<close>

primrec keyOfParents :: "ini_File \<Rightarrow> string list \<Rightarrow> string \<Rightarrow> ini_Key option" where
  "keyOfParents f [] name = None"
| "keyOfParents f (sname # rest) name =
     (case GetSection f sname of
        None \<Rightarrow> keyOfParents f rest name
      | Some sec \<Rightarrow>
          (case keysOf sec name of
             Some v \<Rightarrow> Some \<lparr>key_value = v\<rparr>
           | None \<Rightarrow> keyOfParents f rest name))"

definition GetKey :: "ini_Section \<Rightarrow> string \<Rightarrow> ini_Key option" where
  "GetKey sec name =
     (case keysOf sec name of
        Some v \<Rightarrow> Some \<lparr>key_value = v\<rparr>
      | None \<Rightarrow> keyOfParents (sec_file sec) (parentNames (sec_name sec)) name)"

definition Key :: "ini_Section \<Rightarrow> string \<Rightarrow> ini_Key option" where
  "Key sec name =
     (case GetKey sec name of
        Some key \<Rightarrow> Some key
      | None \<Rightarrow> Some \<lparr>key_value = []\<rparr>)"

definition String :: "ini_Key \<Rightarrow> string" where
  "String key = key_value key"

subsection \<open>What the process reads from outside\<close>

text \<open>
  \<^item> \<open>environ\<close>: the environment; a variable is unset (\<open>None\<close>) or set to a string.
  \<^item> \<open>user_Current\<close>: the result of \<open>user.Current()\<close>, an error or the user's record.
  \<^item> \<open>readable p\<close>: \<open>unix.Access(p, unix.R_OK) == nil\<close>; false for a path where no file is
    and for a file the process may not read.
  \<^item> \<open>parsed p\<close>: the sections and keys that \<open>cfg.Append(p)\<close> loads from the file at \<open>p\<close>.
    A readable file is taken to parse: the caller drops the error \<open>Append\<close> returns, and
    what a file that does not parse does to the files loaded after it is outside the
    model.
  \<^item> \<open>filepath_Join\<close>: \<open>filepath.Join\<close> of two elements, a function of the standard
    library that no property below depends on.
  \<^item> \<open>unicode_ToUpper\<close>: what \<open>strings.ToUpper\<close> returns for a string that is not ASCII
    only (it maps every letter of Unicode); a function of the standard library, and
    \<open>loadConfig\<close> never reaches it.
  \<^item> \<open>Endpoints\<close>: the package's table from endpoint names to URLs; it is declared in
    another file of the package, so it is a parameter here.
\<close>

record User =
  HomeDir :: string

record world =
  environ :: "string \<rightharpoonup> string"
  user_Current :: "error + User"
  readable :: "string \<Rightarrow> bool"
  parsed :: "string \<Rightarrow> ini_File"
  filepath_Join :: "string \<Rightarrow> string \<Rightarrow> string"
  unicode_ToUpper :: "string \<Rightarrow> string"
  Endpoints :: "string \<rightharpoonup> string"

definition ToUpper :: "world \<Rightarrow> string \<Rightarrow> string" where
  "ToUpper w s = (if isASCII s then map upper_char s else unicode_ToUpper w s)"

text \<open>\<open>os.Getenv\<close> returns the empty string for a variable that is not set.\<close>

definition Getenv :: "world \<Rightarrow> string \<Rightarrow> string" where
  "Getenv w name = (case environ w name of None \<Rightarrow> [] | Some v \<Rightarrow> v)"

text \<open>Indexing a Go map with a key it does not hold gives the zero value, \<open>""\<close>.\<close>

definition Endpoints_at :: "world \<Rightarrow> string \<Rightarrow> string" where
  "Endpoints_at w name = (case Endpoints w name of None \<Rightarrow> [] | Some url \<Rightarrow> url)"

subsection \<open>The client\<close>

text \<open>
  The four fields \<open>loadConfig\<close> touches. The struct is declared in another file of the
  package and has more fields; they live in the record's extension, so every statement
  about \<open>'a Client_scheme\<close> holds whatever else the struct carries.
\<close>

record Client =
  endpoint :: string
  appKey :: string
  appSecret :: string
  consumerKey :: string

subsection \<open>configuration.go\<close>

definition systemConfigPath :: string where
  "systemConfigPath = ''/etc/ovh.conf''"

definition userConfigPath :: string where
  "userConfigPath = ''/.ovh.conf''"

definition localConfigPath :: string where
  "localConfigPath = ''./ovh.conf''"

definition currentUserHome :: "world \<Rightarrow> error + string" where
  "currentUserHome w =
     (case user_Current w of Inl err \<Rightarrow> Inl err | Inr usr \<Rightarrow> Inr (HomeDir usr))"

definition appendConfigurationFile :: "world \<Rightarrow> ini_File \<Rightarrow> string \<Rightarrow> ini_File" where
  "appendConfigurationFile w cfg path =
     (if readable w path then ini_Append cfg (parsed w path) else cfg)"

definition getConfigValue :: "world \<Rightarrow> ini_File \<Rightarrow> string \<Rightarrow> string \<Rightarrow> string \<Rightarrow> string" where
  "getConfigValue w cfg section name def =
     (let fromEnv = Getenv w (''OVH_'' @ ToUpper w name) in
      if length fromEnv > 0 then fromEnv
      else (case Section cfg section of
              None \<Rightarrow> def
            | Some fromSection \<Rightarrow>
                (case Key fromSection name of
                   None \<Rightarrow> def
                 | Some fromSectionKey \<Rightarrow> String fromSectionKey)))"

text \<open>
  \<open>loadConfig\<close> returns the client as the method leaves it together with the error
  (\<open>None\<close> for \<open>nil\<close>). The bindings follow the statements of the Go function in order.
\<close>

definition loadConfig ::
  "world \<Rightarrow> string \<Rightarrow> 'a Client_scheme \<Rightarrow> 'a Client_scheme \<times> error option" where
  "loadConfig w endpointName0 c0 =
     (let cfg = ini_Empty;
          cfg = appendConfigurationFile w cfg systemConfigPath;
          cfg = (case currentUserHome w of
                   Inr home \<Rightarrow>
                     appendConfigurationFile w cfg (filepath_Join w home userConfigPath)
                 | Inl err \<Rightarrow> cfg);
          cfg = appendConfigurationFile w cfg localConfigPath;
          endpointName =
            (if endpointName0 = [] then getConfigValue w cfg ''default'' ''endpoint'' ''ovh-eu''
             else endpointName0);
          c = (if appKey c0 = []
               then c0\<lparr>appKey := getConfigValue w cfg endpointName ''application_key'' []\<rparr>
               else c0);
          c = (if appSecret c = []
               then c\<lparr>appSecret := getConfigValue w cfg endpointName ''application_secret'' []\<rparr>
               else c);
          c = (if consumerKey c = []
               then c\<lparr>consumerKey := getConfigValue w cfg endpointName ''consumer_key'' []\<rparr>
               else c);
          c = (if Contains endpointName ''/''
               then c\<lparr>endpoint := endpointName\<rparr>
               else c\<lparr>endpoint := Endpoints_at w endpointName\<rparr>)
      in if endpoint c = [] then (c, Some (UnknownEndpoint endpointName))
         else if appKey c = [] then (c, Some MissingApplicationKey)
         else if appSecret c = [] then (c, Some MissingApplicationSecret)
         else (c, None))"

subsection \<open>Notions used to state the properties\<close>

text \<open>
  \<open>ini_lookup\<close> is the value a configuration defines for one (section, key) pair, if it
  defines one (no parent section, no default); \<open>visible w p\<close> is what
  the file at \<open>p\<close> can contribute to a merge, nothing when the access check fails.
\<close>

definition ini_lookup :: "ini_File \<Rightarrow> string \<Rightarrow> string \<Rightarrow> string option" where
  "ini_lookup cfg section name =
     (case cfg section of None \<Rightarrow> None | Some keys \<Rightarrow> keys name)"

definition visible :: "world \<Rightarrow> string \<Rightarrow> ini_File" where
  "visible w path = (if readable w path then parsed w path else Map.empty)"

text \<open>
  \<open>mergedConfig\<close> is the configuration \<open>loadConfig\<close> has built when its three appends are
  done and \<open>resolvedName\<close> the endpoint name it then works with; both repeat the
  expressions of \<open>loadConfig\<close>, and \<open>loadConfig_staged\<close> below shows that \<open>loadConfig\<close>
  is its remaining statements run on these two values.
\<close>

definition mergedConfig :: "world \<Rightarrow> ini_File" where
  "mergedConfig w =
     (let cfg = ini_Empty;
          cfg = appendConfigurationFile w cfg systemConfigPath;
          cfg = (case currentUserHome w of
                   Inr home \<Rightarrow>
                     appendConfigurationFile w cfg (filepath_Join w home userConfigPath)
                 | Inl err \<Rightarrow> cfg)
      in appendConfigurationFile w cfg localConfigPath)"

definition resolvedName :: "world \<Rightarrow> string \<Rightarrow> string" where
  "resolvedName w hint =
     (if hint = [] then getConfigValue w (mergedConfig w) ''default'' ''endpoint'' ''ovh-eu''
      else hint)"

text \<open>The client with each of the four fields holding its resolved value.\<close>

definition resolved :: "world \<Rightarrow> string \<Rightarrow> 'a Client_scheme \<Rightarrow> 'a Client_scheme" where
  "resolved w hint c =
     (let cfg = mergedConfig w; n = resolvedName w hint in
      c\<lparr>endpoint := (if Contains n ''/'' then n else Endpoints_at w n),
        appKey := (if appKey c = []
                   then getConfigValue w cfg n ''application_key'' [] else appKey c),
        appSecret := (if appSecret c = []
                      then getConfigValue w cfg n ''application_secret'' [] else appSecret c),
        consumerKey := (if consumerKey c = []
                        then getConfigValue w cfg n ''consumer_key'' [] else consumerKey c)\<rparr>)"

subsection \<open>Example inputs\<close>

text \<open>
  A table with two endpoints, a machine with no environment variable and no readable
  configuration file, and a client with nothing set.
\<close>

definition demoEndpoints :: "string \<rightharpoonup> string" where
  "demoEndpoints =
     [''ovh-eu'' \<mapsto> ''https://eu.api.ovh.com/1.0'',
      ''ovh-ca'' \<mapsto> ''https://ca.api.ovh.com/1.0'']"

definition bareWorld :: world where
  "bareWorld =
     \<lparr>environ = Map.empty,
      user_Current = Inr \<lparr>HomeDir = ''/home/demo''\<rparr>,
      readable = (\<lambda>path. False),
      parsed = (\<lambda>path. Map.empty),
      filepath_Join = (\<lambda>dir name. dir @ name),
      unicode_ToUpper = (\<lambda>s. s),
      Endpoints = demoEndpoints\<rparr>"

definition emptyClient :: Client where
  "emptyClient = \<lparr>endpoint = [], appKey = [], appSecret = [], consumerKey = []\<rparr>"

definition fullClient :: Client where
  "fullClient =
     \<lparr>endpoint = [], appKey = ''my-key'', appSecret = ''my-secret'',
      consumerKey = ''my-consumer''\<rparr>"

text \<open>The environment of the spec's example: three variables set, no file present.\<close>

definition envWorld :: world where
  "envWorld =
     bareWorld\<lparr>environ :=
       [''OVH_APPLICATION_KEY'' \<mapsto> ''abc'',
        ''OVH_APPLICATION_SECRET'' \<mapsto> ''def'',
        ''OVH_ENDPOINT'' \<mapsto> ''ovh-eu'']\<rparr>"

text \<open>
  Three readable files. The system-wide file defines every key, the file in the home
  directory the application key and secret, the local file the application key only.
\<close>

definition systemFile :: ini_File where
  "systemFile =
     [''default'' \<mapsto> [''endpoint'' \<mapsto> ''ovh-ca''],
      ''ovh-ca'' \<mapsto> [''application_key'' \<mapsto> ''system-key'',
                   ''application_secret'' \<mapsto> ''system-secret'',
                   ''consumer_key'' \<mapsto> ''system-consumer'']]"

definition homeFile :: ini_File where
  "homeFile =
     [''ovh-ca'' \<mapsto> [''application_key'' \<mapsto> ''home-key'',
                   ''application_secret'' \<mapsto> ''home-secret'']]"

definition localFile :: ini_File where
  "localFile = [''ovh-ca'' \<mapsto> [''application_key'' \<mapsto> ''local-key'']]"

definition filesWorld :: world where
  "filesWorld =
     bareWorld\<lparr>readable :=
       (\<lambda>path. path = ''/etc/ovh.conf'' \<or> path = ''/home/demo/.ovh.conf'' \<or>
               path = ''./ovh.conf''),
      parsed :=
       (\<lambda>path. if path = ''/etc/ovh.conf'' then systemFile
               else if path = ''/home/demo/.ovh.conf'' then homeFile
               else if path = ''./ovh.conf'' then localFile
               else Map.empty)\<rparr>"

text \<open>
  The same files with an environment on top: every variable set, the one of the
  application secret to the empty string.
\<close>

definition mixedWorld :: world where
  "mixedWorld =
     filesWorld\<lparr>environ :=
       [''OVH_ENDPOINT'' \<mapsto> ''ovh-ca'',
        ''OVH_APPLICATION_KEY'' \<mapsto> ''env-key'',
        ''OVH_APPLICATION_SECRET'' \<mapsto> [],
        ''OVH_CONSUMER_KEY'' \<mapsto> ''env-consumer'']\<rparr>"

section \<open>Properties\<close>

subsection \<open>Strings and errors\<close>

lemma Contains_slash: "Contains s ''/'' \<longleftrightarrow> CHR ''/'' \<in> set s"
  by (induction s) auto

lemma Contains_nonempty: "Contains s ''/'' \<Longrightarrow> s \<noteq> []"
  by auto

lemma ToUpper_names:
  "ToUpper w ''endpoint'' = ''ENDPOINT''"
  "ToUpper w ''application_key'' = ''APPLICATION_KEY''"
  "ToUpper w ''application_secret'' = ''APPLICATION_SECRET''"
  "ToUpper w ''consumer_key'' = ''CONSUMER_KEY''"
  by (simp_all add: ToUpper_def isASCII_def upper_char_def)

lemma errors_distinct:
  "UnknownEndpoint n \<noteq> MissingApplicationKey"
  "UnknownEndpoint n \<noteq> MissingApplicationSecret"
  "MissingApplicationKey \<noteq> MissingApplicationSecret"
  by (simp_all add: UnknownEndpoint_def MissingApplicationKey_def MissingApplicationSecret_def)

subsection \<open>The shape of \<open>loadConfig\<close>\<close>

lemma loadConfig_staged:
  "loadConfig w hint c =
     (let cfg = mergedConfig w; n = resolvedName w hint;
          c1 = (if appKey c = []
                then c\<lparr>appKey := getConfigValue w cfg n ''application_key'' []\<rparr>
                else c);
          c1 = (if appSecret c1 = []
                then c1\<lparr>appSecret := getConfigValue w cfg n ''application_secret'' []\<rparr>
                else c1);
          c1 = (if consumerKey c1 = []
                then c1\<lparr>consumerKey := getConfigValue w cfg n ''consumer_key'' []\<rparr>
                else c1);
          c1 = (if Contains n ''/''
                then c1\<lparr>endpoint := n\<rparr>
                else c1\<lparr>endpoint := Endpoints_at w n\<rparr>)
      in if endpoint c1 = [] then (c1, Some (UnknownEndpoint n))
         else if appKey c1 = [] then (c1, Some MissingApplicationKey)
         else if appSecret c1 = [] then (c1, Some MissingApplicationSecret)
         else (c1, None))"
  by (simp only: loadConfig_def mergedConfig_def resolvedName_def Let_def)

text \<open>The four assignments and the three checks, over arbitrary resolved values.\<close>

lemma loadConfig_tail:
  "(let c = (if appKey c0 = [] then c0\<lparr>appKey := K\<rparr> else c0);
        c = (if appSecret c = [] then c\<lparr>appSecret := S\<rparr> else c);
        c = (if consumerKey c = [] then c\<lparr>consumerKey := CK\<rparr> else c);
        c = (if B then c\<lparr>endpoint := n\<rparr> else c\<lparr>endpoint := E\<rparr>)
    in if endpoint c = [] then (c, Some e1)
       else if appKey c = [] then (c, Some e2)
       else if appSecret c = [] then (c, Some e3)
       else (c, None)) =
   (let c' = c0\<lparr>endpoint := (if B then n else E),
                 appKey := (if appKey c0 = [] then K else appKey c0),
                 appSecret := (if appSecret c0 = [] then S else appSecret c0),
                 consumerKey := (if consumerKey c0 = [] then CK else consumerKey c0)\<rparr>
    in (c', if endpoint c' = [] then Some e1
            else if appKey c' = [] then Some e2
            else if appSecret c' = [] then Some e3
            else None))"
  by (simp add: Let_def)

lemma loadConfig_eq:
  "loadConfig w hint c =
     (resolved w hint c,
      if endpoint (resolved w hint c) = [] then Some (UnknownEndpoint (resolvedName w hint))
      else if appKey (resolved w hint c) = [] then Some MissingApplicationKey
      else if appSecret (resolved w hint c) = [] then Some MissingApplicationSecret
      else None)"
proof -
  have "loadConfig w hint c =
     (let c' = resolved w hint c
      in (c', if endpoint c' = [] then Some (UnknownEndpoint (resolvedName w hint))
              else if appKey c' = [] then Some MissingApplicationKey
              else if appSecret c' = [] then Some MissingApplicationSecret
              else None))"
    unfolding loadConfig_staged resolved_def
    by (simp only: Let_def[of "mergedConfig w"] Let_def[of "resolvedName w hint"]
        loadConfig_tail)
  then show ?thesis by (simp only: Let_def)
qed

lemma loadConfig_fst: "fst (loadConfig w hint c) = resolved w hint c"
  by (simp only: loadConfig_eq fst_conv)

lemma loadConfig_snd:
  "snd (loadConfig w hint c) =
     (if endpoint (resolved w hint c) = [] then Some (UnknownEndpoint (resolvedName w hint))
      else if appKey (resolved w hint c) = [] then Some MissingApplicationKey
      else if appSecret (resolved w hint c) = [] then Some MissingApplicationSecret
      else None)"
  by (simp only: loadConfig_eq snd_conv)

lemma resolved_fields:
  "endpoint (resolved w hint c) =
     (if Contains (resolvedName w hint) ''/'' then resolvedName w hint
      else Endpoints_at w (resolvedName w hint))"
  "appKey (resolved w hint c) =
     (if appKey c = []
      then getConfigValue w (mergedConfig w) (resolvedName w hint) ''application_key'' []
      else appKey c)"
  "appSecret (resolved w hint c) =
     (if appSecret c = []
      then getConfigValue w (mergedConfig w) (resolvedName w hint) ''application_secret'' []
      else appSecret c)"
  "consumerKey (resolved w hint c) =
     (if consumerKey c = []
      then getConfigValue w (mergedConfig w) (resolvedName w hint) ''consumer_key'' []
      else consumerKey c)"
  "Client.more (resolved w hint c) = Client.more c"
  by (simp_all add: resolved_def Let_def)

subsection \<open>Reading one value\<close>

lemma getConfigValue_env:
  "environ w (''OVH_'' @ ToUpper w name) = Some v \<Longrightarrow> v \<noteq> [] \<Longrightarrow>
   getConfigValue w cfg section name def = v"
  by (simp add: getConfigValue_def Getenv_def)

text \<open>
  Without the variable, a pair the configuration defines is read as it is defined; no
  call returns \<open>def\<close>.
\<close>

lemma Section_Some: "\<exists>sec. Section cfg section = Some sec"
  by (simp add: Section_def split: option.splits)

lemma Key_Some: "\<exists>key. Key sec name = Some key"
  by (simp add: Key_def split: option.splits)

lemma Section_Key_defined:
  assumes "ini_lookup cfg section name = Some v"
  shows "\<exists>sec. Section cfg section = Some sec \<and> Key sec name = Some \<lparr>key_value = v\<rparr>"
proof -
  from assms obtain keys where k: "cfg section = Some keys" "keys name = Some v"
    by (auto simp: ini_lookup_def split: option.splits)
  then have n: "sectionName cfg section = section"
    by (auto simp: sectionName_def)
  show ?thesis
    by (simp add: Section_def GetSection_def n k Key_def GetKey_def keysOf_def)
qed

lemma getConfigValue_defined:
  assumes "environ w (''OVH_'' @ ToUpper w name) = None \<or>
           environ w (''OVH_'' @ ToUpper w name) = Some []"
    and "ini_lookup cfg section name = Some v"
  shows "getConfigValue w cfg section name def = v"
proof -
  from Section_Key_defined [OF assms(2)] obtain sec
    where "Section cfg section = Some sec" "Key sec name = Some \<lparr>key_value = v\<rparr>"
    by blast
  with assms(1) show ?thesis
    by (auto simp: getConfigValue_def Getenv_def String_def)
qed

lemmas getConfigValue_env_names =
  getConfigValue_env [of _ "''endpoint''", unfolded ToUpper_names append.simps]
  getConfigValue_env [of _ "''application_key''", unfolded ToUpper_names append.simps]
  getConfigValue_env [of _ "''application_secret''", unfolded ToUpper_names append.simps]
  getConfigValue_env [of _ "''consumer_key''", unfolded ToUpper_names append.simps]

lemmas getConfigValue_defined_names =
  getConfigValue_defined [of _ "''endpoint''", unfolded ToUpper_names append.simps]
  getConfigValue_defined [of _ "''application_key''", unfolded ToUpper_names append.simps]
  getConfigValue_defined [of _ "''application_secret''", unfolded ToUpper_names append.simps]
  getConfigValue_defined [of _ "''consumer_key''", unfolded ToUpper_names append.simps]

subsection \<open>Merging the files\<close>

lemma ini_lookup_Empty: "ini_lookup ini_Empty s k = None"
  by (simp add: ini_lookup_def ini_Empty_def)

lemma ini_lookup_Append:
  "ini_lookup (ini_Append cfg src) s k =
     (case ini_lookup src s k of Some v \<Rightarrow> Some v | None \<Rightarrow> ini_lookup cfg s k)"
  by (auto simp: ini_lookup_def ini_Append_def map_add_def split: option.splits)

lemma ini_lookup_append_file:
  "ini_lookup (appendConfigurationFile w cfg p) s k =
     (case ini_lookup (visible w p) s k of Some v \<Rightarrow> Some v | None \<Rightarrow> ini_lookup cfg s k)"
  by (simp add: appendConfigurationFile_def visible_def ini_lookup_Append)
     (simp add: ini_lookup_def)

lemma ini_lookup_merged:
  "ini_lookup (mergedConfig w) s k =
     (case ini_lookup (visible w localConfigPath) s k of
        Some v \<Rightarrow> Some v
      | None \<Rightarrow>
          (case currentUserHome w of
             Inr home \<Rightarrow>
               (case ini_lookup (visible w (filepath_Join w home userConfigPath)) s k of
                  Some v \<Rightarrow> Some v
                | None \<Rightarrow> ini_lookup (visible w systemConfigPath) s k)
           | Inl err \<Rightarrow> ini_lookup (visible w systemConfigPath) s k))"
  by (simp add: mergedConfig_def Let_def ini_lookup_append_file ini_lookup_Empty
      split: sum.splits option.splits)

subsection \<open>Files that cannot be read\<close>

lemma append_unreadable: "\<not> readable w p \<Longrightarrow> appendConfigurationFile w cfg p = cfg"
  by (simp add: appendConfigurationFile_def)

lemma append_parsed_cong:
  "\<forall>p. readable w p \<longrightarrow> g p = parsed w p \<Longrightarrow>
   appendConfigurationFile (w\<lparr>parsed := g\<rparr>) cfg p = appendConfigurationFile w cfg p"
  by (simp add: appendConfigurationFile_def)

lemma mergedConfig_parsed_cong:
  "\<forall>p. readable w p \<longrightarrow> g p = parsed w p \<Longrightarrow> mergedConfig (w\<lparr>parsed := g\<rparr>) = mergedConfig w"
  by (simp add: mergedConfig_def Let_def append_parsed_cong currentUserHome_def
      split: sum.splits)

lemma getConfigValue_parsed: "getConfigValue (w\<lparr>parsed := g\<rparr>) = getConfigValue w"
  by (simp add: getConfigValue_def Getenv_def ToUpper_def fun_eq_iff)

lemma loadConfig_parsed_cong:
  assumes "\<forall>p. readable w p \<longrightarrow> g p = parsed w p"
  shows "loadConfig (w\<lparr>parsed := g\<rparr>) hint c = loadConfig w hint c"
proof -
  have n: "resolvedName (w\<lparr>parsed := g\<rparr>) hint = resolvedName w hint"
    by (simp add: resolvedName_def mergedConfig_parsed_cong [OF assms] getConfigValue_parsed)
  have r: "resolved (w\<lparr>parsed := g\<rparr>) hint c = resolved w hint c"
    by (simp add: resolved_def n mergedConfig_parsed_cong [OF assms] getConfigValue_parsed
        Endpoints_at_def Let_def)
  show ?thesis by (simp only: loadConfig_eq n r)
qed

lemma mergedConfig_no_files:
  "\<forall>p. \<not> readable w p \<Longrightarrow> mergedConfig w = ini_Empty"
  by (simp add: mergedConfig_def Let_def append_unreadable split: sum.splits)

subsection \<open>Evaluating the examples\<close>

lemmas eval_defs = resolved_def resolvedName_def mergedConfig_def getConfigValue_def
  appendConfigurationFile_def currentUserHome_def Getenv_def Endpoints_at_def
  ini_Empty_def ini_Append_def Section_def GetSection_def sectionName_def
  DefaultSection_def keysOf_def parentNames_def GetKey_def Key_def String_def
  ini_lookup_def visible_def ToUpper_names Contains_slash
  systemConfigPath_def userConfigPath_def localConfigPath_def Let_def

lemmas example_defs = bareWorld_def envWorld_def filesWorld_def mixedWorld_def
  demoEndpoints_def systemFile_def homeFile_def localFile_def emptyClient_def fullClient_def

section \<open>The claims\<close>

text \<open>
  Claim C1. A field the caller supplied non-empty is left exactly as the caller set it,
  whatever the environment and the files hold: the application key, the application
  secret and the consumer key of the client keep their values, and a non-empty endpoint
  name hint is the name \<open>loadConfig\<close> works with, so that the endpoint is the hint itself
  (when it contains a slash) or the table's entry for the hint.
\<close>

theorem caller_values_kept:
  "(appKey c \<noteq> [] \<longrightarrow> appKey (fst (loadConfig w hint c)) = appKey c) \<and>
   (appSecret c \<noteq> [] \<longrightarrow> appSecret (fst (loadConfig w hint c)) = appSecret c) \<and>
   (consumerKey c \<noteq> [] \<longrightarrow> consumerKey (fst (loadConfig w hint c)) = consumerKey c) \<and>
   (hint \<noteq> [] \<longrightarrow>
      resolvedName w hint = hint \<and>
      endpoint (fst (loadConfig w hint c)) =
        (if Contains hint ''/'' then hint else Endpoints_at w hint))"
  by (simp add: loadConfig_fst resolved_fields resolvedName_def)

theorem caller_values_kept_witness:
  "appKey fullClient \<noteq> [] \<and> appSecret fullClient \<noteq> [] \<and> consumerKey fullClient \<noteq> [] \<and>
   environ mixedWorld ''OVH_ENDPOINT'' = Some ''ovh-ca'' \<and>
   environ mixedWorld ''OVH_APPLICATION_KEY'' = Some ''env-key'' \<and>
   ini_lookup (mergedConfig mixedWorld) ''ovh-eu'' ''application_key'' = None \<and>
   ini_lookup (mergedConfig mixedWorld) ''ovh-ca'' ''application_key'' = Some ''local-key'' \<and>
   fst (loadConfig mixedWorld ''ovh-eu'' fullClient) =
     \<lparr>endpoint = ''https://eu.api.ovh.com/1.0'', appKey = ''my-key'',
      appSecret = ''my-secret'', consumerKey = ''my-consumer''\<rparr> \<and>
   fst (loadConfig mixedWorld ''ovh-ca'' fullClient) =
     \<lparr>endpoint = ''https://ca.api.ovh.com/1.0'', appKey = ''my-key'',
      appSecret = ''my-secret'', consumerKey = ''my-consumer''\<rparr>"
  using caller_values_kept [of fullClient mixedWorld "''ovh-eu''"]
    caller_values_kept [of fullClient mixedWorld "''ovh-ca''"]
  by (simp add: loadConfig_fst eval_defs example_defs)

text \<open>
  Claim C2 reads: for a field the caller left empty, the environment variable
  \<open>OVH_<NAME IN UPPER CASE>\<close> wins over the files when it is set to a non-empty string, and
  otherwise the value of the merged files, or the default, is used. The variable does win
  (\<open>getConfigValue_env\<close>) and a value the files define is used (\<open>getConfigValue_defined\<close>),
  but the default never is: \<open>getConfigValue\<close> returns \<open>def\<close> only where \<open>Section\<close> or \<open>Key\<close>
  returns nil, which neither does (\<open>Section_Some\<close>, \<open>Key_Some\<close>). With no variable set and no
  file readable the default endpoint name resolves to the empty string instead of
  \<open>ovh-eu\<close>, and a client that has its key and secret is refused for an unknown endpoint.
\<close>

theorem default_endpoint_never_used:
  "environ bareWorld ''OVH_ENDPOINT'' = None \<and>
   mergedConfig bareWorld = ini_Empty \<and>
   getConfigValue bareWorld (mergedConfig bareWorld) ''default'' ''endpoint'' ''ovh-eu'' = [] \<and>
   resolvedName bareWorld [] = [] \<and>
   loadConfig bareWorld [] fullClient = (fullClient, Some (UnknownEndpoint []))"
  by (simp add: loadConfig_eq eval_defs example_defs)

text \<open>
  Claim C3. A (section, key) pair defined in several of the three files has the value of
  the latest file that defines it, in the order system-wide file, file of the home
  directory (when the home directory resolves), local file. In particular an application
  key the local file defines in the section read is the one the client gets when neither
  the caller nor the environment supplied one, whatever the other two files say.
\<close>

theorem later_file_wins:
  "ini_lookup (mergedConfig w) s k =
     (case ini_lookup (visible w localConfigPath) s k of
        Some v \<Rightarrow> Some v
      | None \<Rightarrow>
          (case currentUserHome w of
             Inr home \<Rightarrow>
               (case ini_lookup (visible w (filepath_Join w home userConfigPath)) s k of
                  Some v \<Rightarrow> Some v
                | None \<Rightarrow> ini_lookup (visible w systemConfigPath) s k)
           | Inl err \<Rightarrow> ini_lookup (visible w systemConfigPath) s k)) \<and>
   (appKey c = [] \<and>
    (environ w ''OVH_APPLICATION_KEY'' = None \<or> environ w ''OVH_APPLICATION_KEY'' = Some []) \<and>
    ini_lookup (visible w localConfigPath) (resolvedName w hint) ''application_key'' = Some v
    \<longrightarrow> appKey (fst (loadConfig w hint c)) = v)"
proof -
  have "appKey (fst (loadConfig w hint c)) = v"
    if "appKey c = []"
      and "environ w ''OVH_APPLICATION_KEY'' = None \<or> environ w ''OVH_APPLICATION_KEY'' = Some []"
      and "ini_lookup (visible w localConfigPath) (resolvedName w hint) ''application_key'' = Some v"
  proof -
    have "ini_lookup (mergedConfig w) (resolvedName w hint) ''application_key'' = Some v"
      by (simp add: ini_lookup_merged that(3))
    with that(1) getConfigValue_defined_names(2) [OF that(2)] show ?thesis
      by (simp add: loadConfig_fst resolved_fields)
  qed
  with ini_lookup_merged show ?thesis by blast
qed

theorem later_file_wins_witness:
  "ini_lookup (visible filesWorld ''/etc/ovh.conf'') ''ovh-ca'' ''application_key'' =
     Some ''system-key'' \<and>
   ini_lookup (visible filesWorld ''/home/demo/.ovh.conf'') ''ovh-ca'' ''application_key'' =
     Some ''home-key'' \<and>
   ini_lookup (visible filesWorld ''./ovh.conf'') ''ovh-ca'' ''application_key'' =
     Some ''local-key'' \<and>
   ini_lookup (mergedConfig filesWorld) ''ovh-ca'' ''application_key'' = Some ''local-key'' \<and>
   ini_lookup (mergedConfig filesWorld) ''ovh-ca'' ''application_secret'' = Some ''home-secret'' \<and>
   ini_lookup (mergedConfig filesWorld) ''ovh-ca'' ''consumer_key'' = Some ''system-consumer'' \<and>
   appKey (fst (loadConfig filesWorld ''ovh-ca'' emptyClient)) = ''local-key''"
  using later_file_wins [of filesWorld "''ovh-ca''" "''application_key''" emptyClient
      "''ovh-ca''" "''local-key''"]
    later_file_wins [of filesWorld "''ovh-ca''" "''application_secret''" emptyClient
      "''ovh-ca''" "''local-key''"]
    later_file_wins [of filesWorld "''ovh-ca''" "''consumer_key''" emptyClient
      "''ovh-ca''" "''local-key''"]
  by (simp add: eval_defs example_defs)

text \<open>
  Claim C4. A file that fails the access check contributes nothing: appending it leaves
  the configuration as it was, its content has no influence on the result of
  \<open>loadConfig\<close>, and with no readable file at all the merged configuration is the empty
  one. \<open>loadConfig\<close> returns an error exactly when the resolved endpoint name has no slash
  and no non-empty entry in the table, or the application key is empty, or the application
  secret is empty, all after resolution.
\<close>

theorem missing_file_is_no_error:
  "(\<not> readable w path \<longrightarrow> appendConfigurationFile w cfg path = cfg) \<and>
   ((\<forall>p. readable w p \<longrightarrow> g p = parsed w p) \<longrightarrow>
      loadConfig (w\<lparr>parsed := g\<rparr>) hint c = loadConfig w hint c) \<and>
   ((\<forall>p. \<not> readable w p) \<longrightarrow> mergedConfig w = ini_Empty) \<and>
   (snd (loadConfig w hint c) \<noteq> None) =
     (\<not> Contains (resolvedName w hint) ''/'' \<and> Endpoints_at w (resolvedName w hint) = [] \<or>
      appKey (fst (loadConfig w hint c)) = [] \<or>
      appSecret (fst (loadConfig w hint c)) = [])"
proof -
  have "(snd (loadConfig w hint c) \<noteq> None) =
     (\<not> Contains (resolvedName w hint) ''/'' \<and> Endpoints_at w (resolvedName w hint) = [] \<or>
      appKey (fst (loadConfig w hint c)) = [] \<or>
      appSecret (fst (loadConfig w hint c)) = [])"
    by (simp add: loadConfig_fst loadConfig_snd resolved_fields(1) Contains_nonempty)
  then show ?thesis
    using append_unreadable loadConfig_parsed_cong mergedConfig_no_files by blast
qed

theorem missing_file_is_no_error_witness:
  "\<not> readable bareWorld ''/etc/ovh.conf'' \<and>
   appendConfigurationFile bareWorld localFile ''/etc/ovh.conf'' = localFile \<and>
   loadConfig (bareWorld\<lparr>parsed := \<lambda>p. systemFile\<rparr>) ''ovh-eu'' emptyClient =
     loadConfig bareWorld ''ovh-eu'' emptyClient \<and>
   mergedConfig bareWorld = ini_Empty \<and>
   snd (loadConfig bareWorld ''ovh-eu'' emptyClient) = Some MissingApplicationKey \<and>
   snd (loadConfig bareWorld ''ovh-eu'' fullClient) = None"
  using missing_file_is_no_error [of bareWorld "''/etc/ovh.conf''" localFile "\<lambda>p. systemFile"
      "''ovh-eu''" emptyClient]
    missing_file_is_no_error [of bareWorld "''/etc/ovh.conf''" localFile "\<lambda>p. systemFile"
      "''ovh-eu''" fullClient]
  by (simp add: loadConfig_fst loadConfig_snd eval_defs example_defs)

text \<open>
  Claim C5. A resolved endpoint name that contains a slash is the endpoint, verbatim;
  a hint that contains a slash yields exactly itself whatever table is installed.
\<close>

theorem url_endpoint_verbatim:
  "(Contains (resolvedName w hint) ''/'' \<longrightarrow>
      endpoint (fst (loadConfig w hint c)) = resolvedName w hint) \<and>
   (Contains hint ''/'' \<longrightarrow>
      endpoint (fst (loadConfig (w\<lparr>Endpoints := table\<rparr>) hint c)) = hint)"
proof -
  have "resolvedName (w\<lparr>Endpoints := table\<rparr>) hint = hint" if "Contains hint ''/''"
    using Contains_nonempty [OF that] by (simp add: resolvedName_def)
  then show ?thesis
    by (simp add: loadConfig_fst resolved_fields(1))
qed

theorem url_endpoint_verbatim_witness:
  "Contains ''https://api.example.com/1.0'' ''/'' \<and>
   resolvedName bareWorld ''https://api.example.com/1.0'' = ''https://api.example.com/1.0'' \<and>
   endpoint (fst (loadConfig bareWorld ''https://api.example.com/1.0'' fullClient)) =
     ''https://api.example.com/1.0'' \<and>
   endpoint (fst (loadConfig
       (bareWorld\<lparr>Endpoints := [''https://api.example.com/1.0'' \<mapsto> ''https://eu.api.ovh.com/1.0'']\<rparr>)
       ''https://api.example.com/1.0'' fullClient)) =
     ''https://api.example.com/1.0''"
  using url_endpoint_verbatim [of bareWorld "''https://api.example.com/1.0''" fullClient
      "[''https://api.example.com/1.0'' \<mapsto> ''https://eu.api.ovh.com/1.0'']"]
  by (simp add: Contains_slash resolvedName_def)

text \<open>
  Claim C6. A resolved endpoint name with no slash and no entry in the table makes
  \<open>loadConfig\<close> fail with the unknown-endpoint error, whose message quotes the name.
\<close>

theorem unknown_endpoint_fails:
  "\<not> Contains (resolvedName w hint) ''/'' \<and> Endpoints w (resolvedName w hint) = None \<longrightarrow>
     snd (loadConfig w hint c) = Some (UnknownEndpoint (resolvedName w hint))"
  by (simp add: loadConfig_snd resolved_fields(1) Endpoints_at_def)

theorem unknown_endpoint_fails_witness:
  "\<not> Contains (resolvedName bareWorld ''ovh-mars'') ''/'' \<and>
   Endpoints bareWorld (resolvedName bareWorld ''ovh-mars'') = None \<and>
   snd (loadConfig bareWorld ''ovh-mars'' fullClient) =
     Some (Errorf (''Unknown endpoint '' @ [CHR 0x27] @ ''ovh-mars'' @ [CHR 0x27] @
                   ''. Consider checking '' @ [CHR 0x27] @ ''Endpoints'' @ [CHR 0x27] @
                   '' list of using an URL.''))"
  using unknown_endpoint_fails [of bareWorld "''ovh-mars''" fullClient]
  by (simp add: UnknownEndpoint_def resolvedName_def Contains_slash bareWorld_def
      demoEndpoints_def)

text \<open>
  Claim C7 reads: an application key that is empty after resolution yields the
  missing-application-key error regardless of whether the endpoint and the secret are
  valid. With an endpoint name that is not recognised the endpoint check comes first and
  the error is the unknown-endpoint one, as this input shows.
\<close>

theorem missing_key_hidden_by_unknown_endpoint:
  "appKey (fst (loadConfig bareWorld ''ovh-mars'' emptyClient)) = [] \<and>
   snd (loadConfig bareWorld ''ovh-mars'' emptyClient) = Some (UnknownEndpoint ''ovh-mars'') \<and>
   snd (loadConfig bareWorld ''ovh-mars'' emptyClient) \<noteq> Some MissingApplicationKey"
  by (simp add: loadConfig_fst loadConfig_snd eval_defs example_defs errors_distinct)

text \<open>
  Claim C7, amended. When the endpoint resolves to a non-empty value (a known name or a
  literal URL) and the application key is empty after resolution, \<open>loadConfig\<close> returns the
  missing-application-key error, whether or not the application secret is empty.
\<close>

theorem missing_application_key:
  "endpoint (fst (loadConfig w hint c)) \<noteq> [] \<and> appKey (fst (loadConfig w hint c)) = [] \<longrightarrow>
     snd (loadConfig w hint c) = Some MissingApplicationKey"
  by (simp add: loadConfig_fst loadConfig_snd)

theorem missing_application_key_witness:
  "endpoint (fst (loadConfig bareWorld ''ovh-eu'' (emptyClient\<lparr>appSecret := ''my-secret''\<rparr>))) =
     ''https://eu.api.ovh.com/1.0'' \<and>
   appKey (fst (loadConfig bareWorld ''ovh-eu'' (emptyClient\<lparr>appSecret := ''my-secret''\<rparr>))) = [] \<and>
   snd (loadConfig bareWorld ''ovh-eu'' (emptyClient\<lparr>appSecret := ''my-secret''\<rparr>)) =
     Some MissingApplicationKey \<and>
   appSecret (fst (loadConfig bareWorld ''ovh-eu'' emptyClient)) = [] \<and>
   snd (loadConfig bareWorld ''ovh-eu'' emptyClient) = Some MissingApplicationKey"
  using missing_application_key [of bareWorld "''ovh-eu''" "emptyClient\<lparr>appSecret := ''my-secret''\<rparr>"]
    missing_application_key [of bareWorld "''ovh-eu''" emptyClient]
  by (simp add: loadConfig_fst eval_defs example_defs)

text \<open>
  Claim C8 reads: when \<open>loadConfig\<close> returns an error, the client's endpoint and
  credentials are as they were before the call. The method assigns the resolved values
  before it validates them, so a failing call can leave fields filled in: here the
  application key comes from the environment and the endpoint from the table, and the call
  fails for want of a secret.
\<close>

theorem failure_changes_client:
  "snd (loadConfig (bareWorld\<lparr>environ := [''OVH_APPLICATION_KEY'' \<mapsto> ''abc'']\<rparr>)
          ''ovh-eu'' emptyClient) = Some MissingApplicationSecret \<and>
   fst (loadConfig (bareWorld\<lparr>environ := [''OVH_APPLICATION_KEY'' \<mapsto> ''abc'']\<rparr>)
          ''ovh-eu'' emptyClient) =
     \<lparr>endpoint = ''https://eu.api.ovh.com/1.0'', appKey = ''abc'', appSecret = [],
      consumerKey = []\<rparr> \<and>
   fst (loadConfig (bareWorld\<lparr>environ := [''OVH_APPLICATION_KEY'' \<mapsto> ''abc'']\<rparr>)
          ''ovh-eu'' emptyClient) \<noteq> emptyClient"
  by (simp add: loadConfig_fst loadConfig_snd eval_defs example_defs)

text \<open>
  Claim C8, amended. When \<open>loadConfig\<close> returns an error, the client holds the resolved
  values: the application key, application secret and consumer key the caller had set
  non-empty are unchanged, as is every field of the client other than the four
  configuration fields; credentials that were empty hold whatever was resolved for them
  and the endpoint field holds the resolved endpoint. At least one of endpoint,
  application key and application secret is then empty.
\<close>

theorem failure_keeps_caller_values:
  "snd (loadConfig w hint c) \<noteq> None \<longrightarrow>
     fst (loadConfig w hint c) = resolved w hint c \<and>
     (appKey c \<noteq> [] \<longrightarrow> appKey (fst (loadConfig w hint c)) = appKey c) \<and>
     (appSecret c \<noteq> [] \<longrightarrow> appSecret (fst (loadConfig w hint c)) = appSecret c) \<and>
     (consumerKey c \<noteq> [] \<longrightarrow> consumerKey (fst (loadConfig w hint c)) = consumerKey c) \<and>
     Client.more (fst (loadConfig w hint c)) = Client.more c \<and>
     (endpoint (fst (loadConfig w hint c)) = [] \<or>
      appKey (fst (loadConfig w hint c)) = [] \<or>
      appSecret (fst (loadConfig w hint c)) = [])"
  by (simp add: loadConfig_fst loadConfig_snd resolved_fields(2-5) split: if_splits)

theorem failure_keeps_caller_values_witness:
  "snd (loadConfig mixedWorld ''ovh-mars'' fullClient) = Some (UnknownEndpoint ''ovh-mars'') \<and>
   fst (loadConfig mixedWorld ''ovh-mars'' fullClient) = fullClient"
  using failure_keeps_caller_values [of mixedWorld "''ovh-mars''" fullClient]
  by (simp add: loadConfig_fst loadConfig_snd eval_defs example_defs)

text \<open>
  Claim C9. An empty consumer key is never an error: when endpoint, application key and
  application secret are non-empty after resolution, \<open>loadConfig\<close> succeeds, whatever the
  consumer key is.
\<close>

theorem empty_consumer_key_is_no_error:
  "endpoint (fst (loadConfig w hint c)) \<noteq> [] \<and>
   appKey (fst (loadConfig w hint c)) \<noteq> [] \<and>
   appSecret (fst (loadConfig w hint c)) \<noteq> [] \<longrightarrow>
     snd (loadConfig w hint c) = None"
  by (simp add: loadConfig_fst loadConfig_snd)

theorem empty_consumer_key_is_no_error_witness:
  "loadConfig envWorld [] emptyClient =
     (\<lparr>endpoint = ''https://eu.api.ovh.com/1.0'', appKey = ''abc'', appSecret = ''def'',
       consumerKey = []\<rparr>, None)"
  using empty_consumer_key_is_no_error [of envWorld "[]" emptyClient]
  by (simp add: loadConfig_eq eval_defs example_defs)

text \<open>
  Claim C10. \<open>loadConfig\<close> reports one error, chosen by a fixed order of checks: unknown
  endpoint first, then missing application key, then missing application secret; the
  three errors are different values.
\<close>

theorem error_check_order:
  "snd (loadConfig w hint c) =
     (if endpoint (fst (loadConfig w hint c)) = []
      then Some (UnknownEndpoint (resolvedName w hint))
      else if appKey (fst (loadConfig w hint c)) = [] then Some MissingApplicationKey
      else if appSecret (fst (loadConfig w hint c)) = [] then Some MissingApplicationSecret
      else None) \<and>
   UnknownEndpoint (resolvedName w hint) \<noteq> MissingApplicationKey \<and>
   UnknownEndpoint (resolvedName w hint) \<noteq> MissingApplicationSecret \<and>
   MissingApplicationKey \<noteq> MissingApplicationSecret"
  by (simp only: loadConfig_fst loadConfig_snd errors_distinct simp_thms)

theorem error_check_order_witness:
  "endpoint (fst (loadConfig bareWorld ''ovh-mars'' emptyClient)) = [] \<and>
   appKey (fst (loadConfig bareWorld ''ovh-mars'' emptyClient)) = [] \<and>
   appSecret (fst (loadConfig bareWorld ''ovh-mars'' emptyClient)) = [] \<and>
   snd (loadConfig bareWorld ''ovh-mars'' emptyClient) = Some (UnknownEndpoint ''ovh-mars'') \<and>
   snd (loadConfig bareWorld ''ovh-eu'' emptyClient) = Some MissingApplicationKey \<and>
   snd (loadConfig bareWorld ''ovh-eu'' (emptyClient\<lparr>appKey := ''my-key''\<rparr>)) =
     Some MissingApplicationSecret"
  using error_check_order [of bareWorld "''ovh-mars''" emptyClient]
    error_check_order [of bareWorld "''ovh-eu''" emptyClient]
    error_check_order [of bareWorld "''ovh-eu''" "emptyClient\<lparr>appKey := ''my-key''\<rparr>"]
  by (simp add: loadConfig_fst eval_defs example_defs)

end
